theory Spec2Isabelle
  imports Main "HOL-Library.Word"
begin

section \<open>Values, errors and Python dictionaries\<close>

text \<open>
  The program is \<^verbatim>\<open>src/app.py\<close>: three module-level collections and the request
  handlers that read and write them. Every handler is an \<^verbatim>\<open>async def\<close> without an
  \<^verbatim>\<open>await\<close> in its body, so a handler runs from its first line to its return (or raise)
  without interleaving; a handler is modelled as a function from the state before the
  call to the outcome and the state after it.

  A \<^verbatim>\<open>datetime\<close> is only ever stored, so it is its clock reading as an integer, and the
  reading of \<^verbatim>\<open>datetime.now()\<close> is an argument of the handler that takes it. A \<^verbatim>\<open>float\<close>
  is only ever stored as well, so it is its 64-bit pattern.
\<close>

type_synonym datetime = int
type_synonym float64 = "64 word"

datatype pyval = PInt int | PStr string | PDate datetime

text \<open>
  The exceptions a handler can leave with: \<^verbatim>\<open>HTTPException(status_code, detail)\<close>, which
  the framework turns into a response with that status and message, and the built-in
  \<^verbatim>\<open>KeyError(key)\<close> and \<^verbatim>\<open>ValueError\<close>, which no handler catches.
\<close>

datatype error = HTTPException int string | KeyError pyval | ValueError

text \<open>
  A Python \<^verbatim>\<open>dict\<close> keeps its keys in insertion order, and \<^verbatim>\<open>create_appointment\<close> depends
  on that order, so a dict is an association list: \<^verbatim>\<open>d[k] = v\<close> overwrites the value in
  place when the key is there and appends the pair otherwise, \<^verbatim>\<open>del d[k]\<close> removes the
  pair, \<^verbatim>\<open>d[k]\<close> is \<open>map_of d k\<close> with \<open>None\<close> standing for the KeyError that the caller
  raises, and \<^verbatim>\<open>len(d)\<close> is the length of the list.
\<close>

type_synonym ('k, 'v) dict = "('k \<times> 'v) list"

fun setitem :: "('k, 'v) dict \<Rightarrow> 'k \<Rightarrow> 'v \<Rightarrow> ('k, 'v) dict" where
  "setitem [] k v = [(k, v)]"
| "setitem ((k', v') # d) k v = (if k' = k then (k, v) # d else (k', v') # setitem d k v)"

definition delitem :: "('k, 'v) dict \<Rightarrow> 'k \<Rightarrow> ('k, 'v) dict" where
  "delitem d k = filter (\<lambda>(k', v'). k' \<noteq> k) d"

definition well_formed_dict :: "('k, 'v) dict \<Rightarrow> bool" where
  "well_formed_dict d \<longleftrightarrow> distinct (map fst d)"

text \<open>
  \<^verbatim>\<open>a == b\<close> on dicts: the same keys with equal values, in any order.
\<close>

definition dict_eq :: "('k, 'v) dict \<Rightarrow> ('k, 'v) dict \<Rightarrow> bool" where
  "dict_eq a b \<longleftrightarrow> length a = length b \<and> list_all (\<lambda>(k, v). map_of b k = Some v) a"

type_synonym pydict = "(string, pyval) dict"

text \<open>
  \<^verbatim>\<open>xs.remove(x)\<close>: deletes the first item equal to \<^verbatim>\<open>x\<close>, ValueError when there is none.
\<close>

fun list_remove :: "pydict list \<Rightarrow> pydict \<Rightarrow> error + pydict list" where
  "list_remove [] x = Inl ValueError"
| "list_remove (y # ys) x =
     (if dict_eq y x then Inr ys
      else (case list_remove ys x of Inl e \<Rightarrow> Inl e | Inr ys' \<Rightarrow> Inr (y # ys')))"

section \<open>The data model\<close>

record Patient =
  name :: string
  age :: int
  sex :: string
  weight :: float64
  height :: float64
  phone :: string

text \<open>
  \<^verbatim>\<open>is_available: Optional[bool] = True\<close>: the field of a validated \<^verbatim>\<open>Doctor\<close> is \<^verbatim>\<open>True\<close>,
  \<^verbatim>\<open>False\<close> or \<^verbatim>\<open>None\<close>.
\<close>

record Doctor =
  name :: string
  specialization :: string
  phone :: string
  is_available :: "bool option"

record Appointment =
  patient_id :: int
  doctor_id :: int
  date :: datetime

text \<open>
  \<^verbatim>\<open>patient.dict()\<close> and \<^verbatim>\<open>doctor.dict()\<close> have exactly the fields of their class, and the
  handlers read and write these dicts by those fields only, so a stored patient or doctor
  is the record. An appointment is stored as the dict that \<^verbatim>\<open>appointment.dict()\<close> builds,
  because \<^verbatim>\<open>complete_appointment\<close> and \<^verbatim>\<open>cancel_appointment\<close> read it by the key
  \<^verbatim>\<open>"id"\<close>, which is not a field of the class.
\<close>

definition Appointment_dict :: "Appointment \<Rightarrow> pydict" where
  "Appointment_dict a =
     [(''patient_id'', PInt (patient_id a)),
      (''doctor_id'', PInt (doctor_id a)),
      (''date'', PDate (date a))]"

record state =
  patients_db :: "(int, Patient) dict"
  doctors_db :: "(int, Doctor) dict"
  appointments_db :: "pydict list"

definition empty_state :: state where
  "empty_state = \<lparr>patients_db = [], doctors_db = [], appointments_db = []\<rparr>"

type_synonym response = pydict
type_synonym 'a handler = "state \<Rightarrow> (error + 'a) \<times> state"

definition message :: "string \<Rightarrow> response" where
  "message m = [(''message'', PStr m)]"

section \<open>Patients\<close>

definition create_patient :: "Patient \<Rightarrow> response handler" where
  "create_patient patient s =
     (let patient_id = int (length (patients_db s)) + 1;
          s1 = s\<lparr>patients_db := setitem (patients_db s) patient_id patient\<rparr>
      in (Inr [(''message'', PStr ''Patient created successfully''),
               (''patient_id'', PInt patient_id)], s1))"

definition update_patient :: "int \<Rightarrow> Patient \<Rightarrow> response handler" where
  "update_patient pid patient s =
     (case map_of (patients_db s) pid of
        None \<Rightarrow> (Inl (KeyError (PInt pid)), s)
      | Some old \<Rightarrow>
          (Inr (message ''Patient updated successfully''),
           s\<lparr>patients_db := setitem (patients_db s) pid patient\<rparr>))"

definition delete_patient :: "int \<Rightarrow> response handler" where
  "delete_patient pid s =
     (case map_of (patients_db s) pid of
        None \<Rightarrow> (Inl (KeyError (PInt pid)), s)
      | Some old \<Rightarrow>
          (Inr (message ''Patient deleted successfully''),
           s\<lparr>patients_db := delitem (patients_db s) pid\<rparr>))"

section \<open>Doctors\<close>

definition create_doctor :: "Doctor \<Rightarrow> response handler" where
  "create_doctor doctor s =
     (let doctor_id = int (length (doctors_db s)) + 1;
          s1 = s\<lparr>doctors_db := setitem (doctors_db s) doctor_id doctor\<rparr>
      in (Inr [(''message'', PStr ''Doctor created successfully''),
               (''doctor_id'', PInt doctor_id)], s1))"

definition update_doctor :: "int \<Rightarrow> Doctor \<Rightarrow> response handler" where
  "update_doctor did doctor s =
     (case map_of (doctors_db s) did of
        None \<Rightarrow> (Inl (KeyError (PInt did)), s)
      | Some old \<Rightarrow>
          (Inr (message ''Doctor updated successfully''),
           s\<lparr>doctors_db := setitem (doctors_db s) did doctor\<rparr>))"

definition delete_doctor :: "int \<Rightarrow> response handler" where
  "delete_doctor did s =
     (case map_of (doctors_db s) did of
        None \<Rightarrow> (Inl (KeyError (PInt did)), s)
      | Some old \<Rightarrow>
          (Inr (message ''Doctor deleted successfully''),
           s\<lparr>doctors_db := delitem (doctors_db s) did\<rparr>))"

text \<open>
  \<^verbatim>\<open>doctors_db[doctor_id]["is_available"] = is_available\<close>: the subscript raises KeyError
  for an absent doctor before anything is written.
\<close>

definition set_doctor_availability :: "int \<Rightarrow> bool \<Rightarrow> response handler" where
  "set_doctor_availability did b s =
     (case map_of (doctors_db s) did of
        None \<Rightarrow> (Inl (KeyError (PInt did)), s)
      | Some doc \<Rightarrow>
          (Inr (message ''Doctor availability status updated successfully''),
           s\<lparr>doctors_db := setitem (doctors_db s) did (doc\<lparr>is_available := Some b\<rparr>)\<rparr>))"

section \<open>Appointments\<close>

text \<open>
  \<^verbatim>\<open>if doc["is_available"]\<close>: of the three values of the field only \<^verbatim>\<open>True\<close> is truthy.
\<close>

definition truthy :: "bool option \<Rightarrow> bool" where
  "truthy b \<longleftrightarrow> b = Some True"

definition create_appointment :: "int \<Rightarrow> datetime \<Rightarrow> response handler" where
  "create_appointment pid now s =
     (let available_doctors =
            map fst (filter (\<lambda>(doc_id, doc). truthy (is_available doc)) (doctors_db s))
      in case available_doctors of
           [] \<Rightarrow> (Inl (HTTPException 400 ''No available doctors at the moment''), s)
         | did # rest \<Rightarrow>
             (let appointment = \<lparr>patient_id = pid, doctor_id = did, date = now\<rparr>;
                  s1 = s\<lparr>appointments_db := appointments_db s @ [Appointment_dict appointment]\<rparr>
              in case map_of (doctors_db s1) did of
                   None \<Rightarrow> (Inl (KeyError (PInt did)), s1)
                 | Some doc \<Rightarrow>
                     (Inr (message ''Appointment created successfully''),
                      s1\<lparr>doctors_db :=
                            setitem (doctors_db s1) did (doc\<lparr>is_available := Some False\<rparr>)\<rparr>)))"

text \<open>
  \<^verbatim>\<open>next((app for app in appointments_db if app["id"] == appointment_id), None)\<close>: the
  generator reads \<^verbatim>\<open>app["id"]\<close> of each appointment in turn, so the KeyError of the first
  appointment without that key leaves the handler before a later one is looked at.
\<close>

fun next_app :: "pydict list \<Rightarrow> int \<Rightarrow> error + pydict option" where
  "next_app [] appointment_id = Inr None"
| "next_app (app # apps) appointment_id =
     (case map_of app ''id'' of
        None \<Rightarrow> Inl (KeyError (PStr ''id''))
      | Some v \<Rightarrow> if v = PInt appointment_id then Inr (Some app) else next_app apps appointment_id)"

text \<open>
  \<^verbatim>\<open>doctors_db[doctor_id]\<close> for a value read out of an appointment: the keys of the store
  are integers, and a string or a datetime equals none of them.
\<close>

definition doctor_of :: "(int, Doctor) dict \<Rightarrow> pyval \<Rightarrow> (int \<times> Doctor) option" where
  "doctor_of d v =
     (case v of
        PInt k \<Rightarrow> (case map_of d k of None \<Rightarrow> None | Some doc \<Rightarrow> Some (k, doc))
      | _ \<Rightarrow> None)"

definition complete_appointment :: "int \<Rightarrow> response handler" where
  "complete_appointment appointment_id s =
     (case next_app (appointments_db s) appointment_id of
        Inl e \<Rightarrow> (Inl e, s)
      | Inr None \<Rightarrow> (Inl (HTTPException 404 ''Appointment not found''), s)
      | Inr (Some appointment) \<Rightarrow>
          if appointment = [] then (Inl (HTTPException 404 ''Appointment not found''), s)
          else (case map_of appointment ''doctor_id'' of
                  None \<Rightarrow> (Inl (KeyError (PStr ''doctor_id'')), s)
                | Some v \<Rightarrow>
                    (case doctor_of (doctors_db s) v of
                       None \<Rightarrow> (Inl (KeyError v), s)
                     | Some (k, doc) \<Rightarrow>
                         (let s1 = s\<lparr>doctors_db :=
                                        setitem (doctors_db s) k (doc\<lparr>is_available := Some True\<rparr>)\<rparr>
                          in case list_remove (appointments_db s1) appointment of
                               Inl e \<Rightarrow> (Inl e, s1)
                             | Inr apps \<Rightarrow>
                                 (Inr (message ''Appointment completed successfully''),
                                  s1\<lparr>appointments_db := apps\<rparr>)))))"

definition cancel_appointment :: "int \<Rightarrow> response handler" where
  "cancel_appointment appointment_id s =
     (case next_app (appointments_db s) appointment_id of
        Inl e \<Rightarrow> (Inl e, s)
      | Inr None \<Rightarrow> (Inl (HTTPException 404 ''Appointment not found''), s)
      | Inr (Some appointment) \<Rightarrow>
          if appointment = [] then (Inl (HTTPException 404 ''Appointment not found''), s)
          else (case map_of appointment ''doctor_id'' of
                  None \<Rightarrow> (Inl (KeyError (PStr ''doctor_id'')), s)
                | Some v \<Rightarrow>
                    (case doctor_of (doctors_db s) v of
                       None \<Rightarrow> (Inl (KeyError v), s)
                     | Some (k, doc) \<Rightarrow>
                         (let s1 = s\<lparr>doctors_db :=
                                        setitem (doctors_db s) k (doc\<lparr>is_available := Some True\<rparr>)\<rparr>
                          in case list_remove (appointments_db s1) appointment of
                               Inl e \<Rightarrow> (Inl e, s1)
                             | Inr apps \<Rightarrow>
                                 (Inr (message ''Appointment canceled successfully''),
                                  s1\<lparr>appointments_db := apps\<rparr>)))))"

section \<open>Requests and runs\<close>

text \<open>
  The handlers that write to a collection, as requests. The server answers a request
  whose handler raised and goes on with the next one, in the state the handler left.
\<close>

datatype request =
    CreatePatient Patient
  | UpdatePatient int Patient
  | DeletePatient int
  | CreateDoctor Doctor
  | UpdateDoctor int Doctor
  | DeleteDoctor int
  | CreateAppointment int datetime
  | CompleteAppointment int
  | CancelAppointment int
  | SetDoctorAvailability int bool

fun handle :: "request \<Rightarrow> response handler" where
  "handle (CreatePatient p) = create_patient p"
| "handle (UpdatePatient i p) = update_patient i p"
| "handle (DeletePatient i) = delete_patient i"
| "handle (CreateDoctor d) = create_doctor d"
| "handle (UpdateDoctor i d) = update_doctor i d"
| "handle (DeleteDoctor i) = delete_doctor i"
| "handle (CreateAppointment p t) = create_appointment p t"
| "handle (CompleteAppointment i) = complete_appointment i"
| "handle (CancelAppointment i) = cancel_appointment i"
| "handle (SetDoctorAvailability i b) = set_doctor_availability i b"

fun run :: "request list \<Rightarrow> state \<Rightarrow> state" where
  "run [] s = s"
| "run (r # rs) s = run rs (snd (handle r s))"

text \<open>The three requests of the appointment lifecycle.\<close>

fun lifecycle :: "request \<Rightarrow> bool" where
  "lifecycle (CreateAppointment p t) = True"
| "lifecycle (CompleteAppointment i) = True"
| "lifecycle (CancelAppointment i) = True"
| "lifecycle r = False"

section \<open>Notions of the specification\<close>

text \<open>The doctors whose flag is \<^verbatim>\<open>False\<close>, and the doctors that the active appointments name.\<close>

definition unavailable :: "(int, Doctor) dict \<Rightarrow> int list" where
  "unavailable ds = map fst (filter (\<lambda>(k, d). is_available d = Some False) ds)"

definition doctor_refs :: "pydict list \<Rightarrow> pyval option list" where
  "doctor_refs apps = map (\<lambda>a. map_of a ''doctor_id'') apps"

text \<open>
  A state before any appointment: no active appointment, and no doctor flagged
  \<^verbatim>\<open>False\<close>. The state at process start is one.
\<close>

definition fresh :: "state \<Rightarrow> bool" where
  "fresh s \<longleftrightarrow>
     appointments_db s = [] \<and> well_formed_dict (doctors_db s) \<and> unavailable (doctors_db s) = []"

text \<open>The failure that the specification calls NotFound: an HTTPException with status 404.\<close>

fun not_found :: "error + 'a \<Rightarrow> bool" where
  "not_found (Inl (HTTPException c m)) = (c = 404)"
| "not_found r = False"

text \<open>The fields of the class \<^verbatim>\<open>Appointment\<close>, in the order of \<^verbatim>\<open>appointment.dict()\<close>.\<close>

definition Appointment_fields :: "string list" where
  "Appointment_fields = [''patient_id'', ''doctor_id'', ''date'']"

subsection \<open>Sample data\<close>

definition dr_ada :: Doctor where
  "dr_ada = \<lparr>name = ''Ada'', specialization = ''Cardiology'', phone = ''555-0100'',
             is_available = Some True\<rparr>"

definition dr_bob :: Doctor where
  "dr_bob = \<lparr>name = ''Bob'', specialization = ''Neurology'', phone = ''555-0101'',
             is_available = Some True\<rparr>"

definition dr_eve :: Doctor where
  "dr_eve = \<lparr>name = ''Eve'', specialization = ''Oncology'', phone = ''555-0102'',
             is_available = None\<rparr>"

definition pat_carl :: Patient where
  "pat_carl = \<lparr>Patient.name = ''Carl'', age = 41, sex = ''M'', weight = 0x4054000000000000,
               height = 0x3FFC000000000000, Patient.phone = ''555-0200''\<rparr>"

definition pat_dana :: Patient where
  "pat_dana = \<lparr>Patient.name = ''Dana'', age = 29, sex = ''F'', weight = 0x404E000000000000,
               height = 0x3FFA666666666666, Patient.phone = ''555-0201''\<rparr>"

text \<open>
  Three doctors in the order of their creation; the first was posted with
  \<^verbatim>\<open>"is_available": null\<close>.
\<close>

definition three_doctors :: state where
  "three_doctors =
     \<lparr>patients_db = [], doctors_db = [(1, dr_eve), (2, dr_ada), (3, dr_bob)],
      appointments_db = []\<rparr>"

text \<open>A state in which no doctor can be assigned.\<close>

definition all_busy :: state where
  "all_busy =
     \<lparr>patients_db = [(1, pat_carl)],
      doctors_db = [(1, dr_eve), (2, dr_ada\<lparr>is_available := Some False\<rparr>)],
      appointments_db = [[(''patient_id'', PInt 1), (''doctor_id'', PInt 2), (''date'', PDate 99)]]\<rparr>"

text \<open>
  A state that no run of the handlers produces: its appointment carries the key
  \<^verbatim>\<open>"id"\<close> that the lookup of \<^verbatim>\<open>complete_appointment\<close> reads.
\<close>

definition with_id :: state where
  "with_id =
     \<lparr>patients_db = [],
      doctors_db = [(1, dr_ada\<lparr>is_available := Some False\<rparr>)],
      appointments_db = [[(''id'', PInt 5), (''patient_id'', PInt 7), (''doctor_id'', PInt 1)]]\<rparr>"

text \<open>Five lifecycle requests: three bookings, a completion and a cancellation.\<close>

definition bookings :: "request list" where
  "bookings =
     [CreateAppointment 7 100, CompleteAppointment 1, CreateAppointment 8 101,
      CancelAppointment 2, CreateAppointment 9 102]"

text \<open>
  The invariant of the specification, for one state: a doctor of the store is named by an
  active appointment exactly when its flag is \<^verbatim>\<open>False\<close>, and every active appointment
  names a doctor of the store.
\<close>

definition bidirectional :: "state \<Rightarrow> bool" where
  "bidirectional s \<longleftrightarrow>
     list_all (\<lambda>x. (Some (PInt (fst x)) \<in> set (doctor_refs (appointments_db s)))
                     = (is_available (snd x) = Some False)) (doctors_db s) \<and>
     list_all (\<lambda>r. r \<in> set (map (\<lambda>x. Some (PInt (fst x))) (doctors_db s)))
       (doctor_refs (appointments_db s))"

text \<open>As many doctors flagged \<^verbatim>\<open>False\<close> as active appointments.\<close>

definition counts_agree :: "state \<Rightarrow> bool" where
  "counts_agree s \<longleftrightarrow> length (unavailable (doctors_db s)) = length (appointments_db s)"

text \<open>
  What the lifecycle handlers keep true from a fresh state on: the appointments have no
  key \<^verbatim>\<open>"id"\<close>, no two of them name the same doctor, and the doctors they name are the
  doctors flagged \<^verbatim>\<open>False\<close>.
\<close>

definition lifecycle_inv :: "state \<Rightarrow> bool" where
  "lifecycle_inv s \<longleftrightarrow>
     well_formed_dict (doctors_db s) \<and>
     list_all (\<lambda>a. map_of a ''id'' = None) (appointments_db s) \<and>
     distinct (doctor_refs (appointments_db s)) \<and>
     set (doctor_refs (appointments_db s)) = set (map (\<lambda>k. Some (PInt k)) (unavailable (doctors_db s)))"

text \<open>The appointments of a state all have the fields of the class and no other key.\<close>

definition plain_appointments :: "state \<Rightarrow> bool" where
  "plain_appointments s \<longleftrightarrow> list_all (\<lambda>a. map fst a = Appointment_fields) (appointments_db s)"

section \<open>Assigning a doctor\<close>

text \<open>
  The list comprehension of \<^verbatim>\<open>create_appointment\<close> walks \<^verbatim>\<open>doctors_db.items()\<close> in the
  order of the dict, so its first element is the key of the first doctor whose flag is
  \<^verbatim>\<open>True\<close>.
\<close>

lemma available_first:
  "\<forall>x \<in> set pre. is_available (snd x) \<noteq> Some True \<Longrightarrow> is_available d = Some True \<Longrightarrow>
   map fst (filter (\<lambda>(doc_id, doc). truthy (is_available doc)) (pre @ (k, d) # post))
     = k # map fst (filter (\<lambda>(doc_id, doc). truthy (is_available doc)) post)"
  by (induction pre) (auto simp: truthy_def)

lemma map_of_mem_Some: "(k, d) \<in> set ds \<Longrightarrow> \<exists>d'. map_of ds k = Some d'"
  by (induction ds) auto

lemma create_appointment_none:
  assumes "\<forall>x \<in> set (doctors_db s). is_available (snd x) \<noteq> Some True"
  shows "create_appointment pid now s =
           (Inl (HTTPException 400 ''No available doctors at the moment''), s)"
proof -
  have "filter (\<lambda>(doc_id, doc). truthy (is_available doc)) (doctors_db s) = []"
    using assms by (auto simp: filter_empty_conv truthy_def)
  then show ?thesis by (simp add: create_appointment_def)
qed

lemma create_appointment_selects:
  assumes "doctors_db s = pre @ (k, d) # post"
    and "\<forall>x \<in> set pre. is_available (snd x) \<noteq> Some True"
    and "is_available d = Some True"
  shows "fst (create_appointment pid now s) = Inr (message ''Appointment created successfully'')"
    and "appointments_db (snd (create_appointment pid now s)) =
           appointments_db s @ [Appointment_dict \<lparr>patient_id = pid, doctor_id = k, date = now\<rparr>]"
    and "patients_db (snd (create_appointment pid now s)) = patients_db s"
    and "\<exists>doc. map_of (doctors_db s) k = Some doc \<and>
           doctors_db (snd (create_appointment pid now s)) =
             setitem (doctors_db s) k (doc\<lparr>is_available := Some False\<rparr>)"
proof -
  have av: "map fst (filter (\<lambda>(doc_id, doc). truthy (is_available doc)) (doctors_db s))
     = k # map fst (filter (\<lambda>(doc_id, doc). truthy (is_available doc)) post)"
    using available_first [OF assms(2,3)] assms(1) by simp
  have "(k, d) \<in> set (doctors_db s)" using assms(1) by simp
  then obtain doc where doc: "map_of (doctors_db s) k = Some doc"
    using map_of_mem_Some by fastforce
  show "fst (create_appointment pid now s) = Inr (message ''Appointment created successfully'')"
    by (simp add: create_appointment_def av doc)
  show "appointments_db (snd (create_appointment pid now s)) =
           appointments_db s @ [Appointment_dict \<lparr>patient_id = pid, doctor_id = k, date = now\<rparr>]"
    by (simp add: create_appointment_def av doc)
  show "patients_db (snd (create_appointment pid now s)) = patients_db s"
    by (simp add: create_appointment_def av doc)
  show "\<exists>doc. map_of (doctors_db s) k = Some doc \<and>
           doctors_db (snd (create_appointment pid now s)) =
             setitem (doctors_db s) k (doc\<lparr>is_available := Some False\<rparr>)"
    by (simp add: create_appointment_def av doc)
qed

text \<open>
  Claim C3. In every state whose doctor store holds a doctor with \<^verbatim>\<open>is_available == True\<close>,
  \<^verbatim>\<open>create_appointment\<close> succeeds, and the store splits at the doctor it selects: no doctor
  stored before that one has the flag \<^verbatim>\<open>True\<close>, that one has, and the appointment appended
  to the active collection carries its id as \<^verbatim>\<open>doctor_id\<close>.
\<close>

theorem C3_first_available_doctor:
  assumes "\<exists>x \<in> set (doctors_db s). is_available (snd x) = Some True"
  shows "\<exists>pre x post.
           doctors_db s = pre @ x # post \<and>
           (\<forall>y \<in> set pre. is_available (snd y) \<noteq> Some True) \<and>
           is_available (snd x) = Some True \<and>
           fst (create_appointment pid now s) = Inr (message ''Appointment created successfully'') \<and>
           appointments_db (snd (create_appointment pid now s)) =
             appointments_db s @
               [Appointment_dict \<lparr>patient_id = pid, doctor_id = fst x, date = now\<rparr>] \<and>
           map_of (last (appointments_db (snd (create_appointment pid now s)))) ''doctor_id''
             = Some (PInt (fst x))"
proof -
  from split_list_first_prop [OF assms] obtain pre x post where
    h: "doctors_db s = pre @ x # post" "is_available (snd x) = Some True"
       "\<forall>y \<in> set pre. \<not> is_available (snd y) = Some True"
    by blast
  have h1: "doctors_db s = pre @ (fst x, snd x) # post" using h(1) by simp
  note sel = create_appointment_selects [OF h1 h(3) h(2)]
  have "map_of (last (appointments_db (snd (create_appointment pid now s)))) ''doctor_id''
             = Some (PInt (fst x))"
    by (simp add: sel(2) Appointment_dict_def)
  with h sel(1,2) show ?thesis by blast
qed

text \<open>
  With the doctors 1 (flag \<^verbatim>\<open>None\<close>), 2 and 3 (flag \<^verbatim>\<open>True\<close>) the appointment goes to
  doctor 2.
\<close>

theorem C3_first_available_doctor_witness:
  "(\<exists>x \<in> set (doctors_db three_doctors). is_available (snd x) = Some True) \<and>
   (\<exists>pre x post.
      doctors_db three_doctors = pre @ x # post \<and>
      (\<forall>y \<in> set pre. is_available (snd y) \<noteq> Some True) \<and>
      is_available (snd x) = Some True \<and>
      fst (create_appointment 7 100 three_doctors)
        = Inr (message ''Appointment created successfully'') \<and>
      appointments_db (snd (create_appointment 7 100 three_doctors)) =
        appointments_db three_doctors @
          [Appointment_dict \<lparr>patient_id = 7, doctor_id = fst x, date = 100\<rparr>] \<and>
      map_of (last (appointments_db (snd (create_appointment 7 100 three_doctors)))) ''doctor_id''
        = Some (PInt (fst x))) \<and>
   appointments_db (snd (create_appointment 7 100 three_doctors)) =
     [[(''patient_id'', PInt 7), (''doctor_id'', PInt 2), (''date'', PDate 100)]]"
proof -
  have h: "\<exists>x \<in> set (doctors_db three_doctors). is_available (snd x) = Some True"
    by (simp add: three_doctors_def dr_ada_def)
  have e: "appointments_db (snd (create_appointment 7 100 three_doctors)) =
     [[(''patient_id'', PInt 7), (''doctor_id'', PInt 2), (''date'', PDate 100)]]"
    by (simp add: three_doctors_def create_appointment_def truthy_def dr_eve_def dr_ada_def
        dr_bob_def Appointment_dict_def)
  show ?thesis using h C3_first_available_doctor [OF h, of 7 100] e by blast
qed

text \<open>
  Claim C4. In every state in which no doctor has \<^verbatim>\<open>is_available == True\<close>,
  \<^verbatim>\<open>create_appointment\<close> raises the HTTPException with status 400 and leaves the state as
  it was: the three collections are those of the state before the call.
\<close>

theorem C4_no_available_doctor:
  assumes "\<forall>x \<in> set (doctors_db s). is_available (snd x) \<noteq> Some True"
  shows "create_appointment pid now s =
           (Inl (HTTPException 400 ''No available doctors at the moment''), s)"
  using assms by (rule create_appointment_none)

theorem C4_no_available_doctor_witness:
  "\<not> (\<exists>x \<in> set (doctors_db all_busy). is_available (snd x) = Some True) \<and>
   create_appointment 1 100 all_busy =
     (Inl (HTTPException 400 ''No available doctors at the moment''), all_busy)"
proof -
  have h: "\<forall>x \<in> set (doctors_db all_busy). is_available (snd x) \<noteq> Some True"
    by (simp add: all_busy_def dr_eve_def)
  show ?thesis using h C4_no_available_doctor [OF h, of 1 100] by blast
qed

text \<open>
  Claim C10. \<^verbatim>\<open>create_appointment\<close> does not read the patient store: for every
  \<^verbatim>\<open>patient_id\<close> whatsoever the call succeeds as soon as one doctor has the flag \<^verbatim>\<open>True\<close>,
  the appended appointment carries that \<^verbatim>\<open>patient_id\<close>, the patient store is left as it
  was, and replacing the patient store by any other changes neither the outcome nor the
  rest of the resulting state.
\<close>

theorem C10_patient_store_not_consulted:
  assumes "\<exists>x \<in> set (doctors_db s). is_available (snd x) = Some True"
  shows "fst (create_appointment pid now s) = Inr (message ''Appointment created successfully'') \<and>
         (\<exists>did. appointments_db (snd (create_appointment pid now s)) =
            appointments_db s @
              [Appointment_dict \<lparr>patient_id = pid, doctor_id = did, date = now\<rparr>]) \<and>
         map_of (last (appointments_db (snd (create_appointment pid now s)))) ''patient_id''
           = Some (PInt pid) \<and>
         patients_db (snd (create_appointment pid now s)) = patients_db s \<and>
         (\<forall>P. create_appointment pid now (s\<lparr>patients_db := P\<rparr>) =
            (fst (create_appointment pid now s),
             (snd (create_appointment pid now s))\<lparr>patients_db := P\<rparr>))"
proof -
  from split_list_first_prop [OF assms] obtain pre x post where
    h: "doctors_db s = pre @ x # post" "is_available (snd x) = Some True"
       "\<forall>y \<in> set pre. \<not> is_available (snd y) = Some True"
    by blast
  have h1: "doctors_db s = pre @ (fst x, snd x) # post" using h(1) by simp
  note sel = create_appointment_selects [OF h1 h(3) h(2)]
  have a: "map_of (last (appointments_db (snd (create_appointment pid now s)))) ''patient_id''
           = Some (PInt pid)"
    by (simp add: sel(2) Appointment_dict_def)
  have b: "\<forall>P. create_appointment pid now (s\<lparr>patients_db := P\<rparr>) =
            (fst (create_appointment pid now s),
             (snd (create_appointment pid now s))\<lparr>patients_db := P\<rparr>)"
    by (simp add: create_appointment_def Let_def split: list.splits option.splits)
  show ?thesis using sel(1,2,3) a b by blast
qed

text \<open>Patient 42 is in no store; the appointment is created for it all the same.\<close>

theorem C10_patient_store_not_consulted_witness:
  "(\<exists>x \<in> set (doctors_db three_doctors). is_available (snd x) = Some True) \<and>
   map_of (patients_db three_doctors) 42 = None \<and>
   fst (create_appointment 42 100 three_doctors)
     = Inr (message ''Appointment created successfully'') \<and>
   map_of (last (appointments_db (snd (create_appointment 42 100 three_doctors)))) ''patient_id''
     = Some (PInt 42)"
proof -
  have h: "\<exists>x \<in> set (doctors_db three_doctors). is_available (snd x) = Some True"
    by (simp add: three_doctors_def dr_ada_def)
  have n: "map_of (patients_db three_doctors) 42 = None"
    by (simp add: three_doctors_def)
  show ?thesis using h n C10_patient_store_not_consulted [OF h, of 42 100] by blast
qed

section \<open>Completing and cancelling\<close>

text \<open>
  Claim C5. For every appointment id and every state, \<^verbatim>\<open>cancel_appointment\<close> leaves the
  state that \<^verbatim>\<open>complete_appointment\<close> leaves and fails exactly when it fails, with the same
  exception; when both succeed they differ in the message they return, and in nothing
  else.
\<close>

theorem C5_cancel_same_as_complete:
  "snd (cancel_appointment i s) = snd (complete_appointment i s) \<and>
   (case fst (complete_appointment i s) of
      Inl e \<Rightarrow> fst (cancel_appointment i s) = Inl e
    | Inr r \<Rightarrow> r = message ''Appointment completed successfully'' \<and>
              fst (cancel_appointment i s) = Inr (message ''Appointment canceled successfully''))"
  by (simp add: cancel_appointment_def complete_appointment_def Let_def
        split: sum.splits option.splits prod.splits)

text \<open>
  Both outcomes occur: on a state whose appointment has the key \<^verbatim>\<open>"id"\<close> the call with that
  id succeeds, and the call with another id raises the 404.
\<close>

lemma complete_with_id:
  "complete_appointment 5 with_id =
     (Inr (message ''Appointment completed successfully''),
      \<lparr>patients_db = [], doctors_db = [(1, dr_ada)], appointments_db = []\<rparr>)"
  by (simp add: with_id_def complete_appointment_def doctor_of_def dict_eq_def dr_ada_def)

theorem C5_cancel_same_as_complete_witness:
  "fst (cancel_appointment 5 with_id) = Inr (message ''Appointment canceled successfully'') \<and>
   snd (cancel_appointment 5 with_id) =
     \<lparr>patients_db = [], doctors_db = [(1, dr_ada)], appointments_db = []\<rparr> \<and>
   fst (cancel_appointment 6 with_id) = Inl (HTTPException 404 ''Appointment not found'') \<and>
   snd (cancel_appointment 6 with_id) = with_id"
proof -
  have c6: "complete_appointment 6 with_id =
      (Inl (HTTPException 404 ''Appointment not found''), with_id)"
    by (simp add: with_id_def complete_appointment_def)
  show ?thesis
    using C5_cancel_same_as_complete [of 5 with_id] C5_cancel_same_as_complete [of 6 with_id]
    by (simp add: complete_with_id c6)
qed

section \<open>The record stores\<close>

text \<open>Item assignment and lookup on the association list.\<close>

lemma map_of_setitem: "map_of (setitem d k v) = (map_of d)(k \<mapsto> v)"
  by (induction d k v rule: setitem.induct) auto

lemma keys_setitem_mem: "k \<in> fst ` set d \<Longrightarrow> map fst (setitem d k v) = map fst d"
  by (induction d k v rule: setitem.induct) auto

lemma keys_setitem_new: "k \<notin> fst ` set d \<Longrightarrow> setitem d k v = d @ [(k, v)]"
  by (induction d k v rule: setitem.induct) auto

lemma setitem_idem: "setitem (setitem d k v) k v = setitem d k v"
  by (induction d k v rule: setitem.induct) auto

lemma map_of_None_keys: "map_of d k = None \<longleftrightarrow> k \<notin> fst ` set d"
  by (simp add: map_of_eq_None_iff)

subsection \<open>Setting the availability flag\<close>

text \<open>
  Claim C6, as the code has it. For every doctor id and boolean \<open>b\<close>:
  when the id is not a key of the doctor store, \<^verbatim>\<open>set_doctor_availability\<close> leaves with the
  KeyError of the subscript, the state untouched; when the id is a key, the call succeeds,
  the patients and the appointments are untouched, the doctor store keeps its keys in
  their order, the doctor under the id is the one before with \<^verbatim>\<open>is_available\<close> set to \<open>b\<close>
  and every other key maps to what it mapped to; and the state after a second call with
  the same arguments is the state after the first.
\<close>

theorem C6_set_doctor_availability:
  "(did \<notin> fst ` set (doctors_db s) \<longrightarrow>
      set_doctor_availability did b s = (Inl (KeyError (PInt did)), s)) \<and>
   (\<forall>doc. map_of (doctors_db s) did = Some doc \<longrightarrow>
      fst (set_doctor_availability did b s)
        = Inr (message ''Doctor availability status updated successfully'') \<and>
      patients_db (snd (set_doctor_availability did b s)) = patients_db s \<and>
      appointments_db (snd (set_doctor_availability did b s)) = appointments_db s \<and>
      map fst (doctors_db (snd (set_doctor_availability did b s))) = map fst (doctors_db s) \<and>
      map_of (doctors_db (snd (set_doctor_availability did b s))) did
        = Some (doc\<lparr>is_available := Some b\<rparr>) \<and>
      (\<forall>k. k \<noteq> did \<longrightarrow>
         map_of (doctors_db (snd (set_doctor_availability did b s))) k
           = map_of (doctors_db s) k)) \<and>
   snd (set_doctor_availability did b (snd (set_doctor_availability did b s)))
     = snd (set_doctor_availability did b s)"
proof (intro conjI allI impI)
  assume "did \<notin> fst ` set (doctors_db s)"
  then have "map_of (doctors_db s) did = None" by (simp add: map_of_None_keys)
  then show "set_doctor_availability did b s = (Inl (KeyError (PInt did)), s)"
    by (simp add: set_doctor_availability_def)
next
  fix doc assume d: "map_of (doctors_db s) did = Some doc"
  then have mem: "did \<in> fst ` set (doctors_db s)"
    using map_of_None_keys [of "doctors_db s" did] by auto
  show "fst (set_doctor_availability did b s)
        = Inr (message ''Doctor availability status updated successfully'')"
    by (simp add: set_doctor_availability_def d)
  show "patients_db (snd (set_doctor_availability did b s)) = patients_db s"
    by (simp add: set_doctor_availability_def d)
  show "appointments_db (snd (set_doctor_availability did b s)) = appointments_db s"
    by (simp add: set_doctor_availability_def d)
  show "map fst (doctors_db (snd (set_doctor_availability did b s))) = map fst (doctors_db s)"
    by (simp add: set_doctor_availability_def d keys_setitem_mem [OF mem])
  show "map_of (doctors_db (snd (set_doctor_availability did b s))) did
        = Some (doc\<lparr>is_available := Some b\<rparr>)"
    by (simp add: set_doctor_availability_def d map_of_setitem)
  fix k assume "k \<noteq> did"
  then show "map_of (doctors_db (snd (set_doctor_availability did b s))) k
           = map_of (doctors_db s) k"
    by (simp add: set_doctor_availability_def d map_of_setitem)
next
  show "snd (set_doctor_availability did b (snd (set_doctor_availability did b s)))
     = snd (set_doctor_availability did b s)"
  proof (cases "map_of (doctors_db s) did")
    case None
    then show ?thesis by (simp add: set_doctor_availability_def)
  next
    case (Some doc)
    then show ?thesis
      by (simp add: set_doctor_availability_def map_of_setitem setitem_idem)
  qed
qed

text \<open>Doctor 9 is absent, doctor 2 is flagged, and flagging it again changes nothing.\<close>

theorem C6_set_doctor_availability_witness:
  "set_doctor_availability 9 False three_doctors = (Inl (KeyError (PInt 9)), three_doctors) \<and>
   doctors_db (snd (set_doctor_availability 2 False three_doctors))
     = [(1, dr_eve), (2, dr_ada\<lparr>is_available := Some False\<rparr>), (3, dr_bob)] \<and>
   snd (set_doctor_availability 2 False (snd (set_doctor_availability 2 False three_doctors)))
     = snd (set_doctor_availability 2 False three_doctors)"
proof -
  have a: "9 \<notin> fst ` set (doctors_db three_doctors)" by (simp add: three_doctors_def)
  have e: "doctors_db (snd (set_doctor_availability 2 False three_doctors))
     = [(1, dr_eve), (2, dr_ada\<lparr>is_available := Some False\<rparr>), (3, dr_bob)]"
    by (simp add: three_doctors_def set_doctor_availability_def)
  show ?thesis
    using a e C6_set_doctor_availability [of 9 three_doctors False]
      C6_set_doctor_availability [of 2 three_doctors False]
    by simp
qed

text \<open>
  The claim's NotFound does not occur: for an absent doctor the handler raises a
  KeyError, which is no HTTPException with status 404.
\<close>

theorem C6_not_found_counterexample:
  "fst (set_doctor_availability 1 True empty_state) = Inl (KeyError (PInt 1)) \<and>
   \<not> not_found (fst (set_doctor_availability 1 True empty_state))"
  by (simp add: set_doctor_availability_def empty_state_def)

subsection \<open>Updating and deleting a patient\<close>

text \<open>
  Claim C8, as the code has it. For every id that is not a key of the patient store,
  \<^verbatim>\<open>update_patient\<close> and \<^verbatim>\<open>delete_patient\<close> both leave with the KeyError of the subscript
  on \<^verbatim>\<open>patients_db\<close>, and the state after the call is the state before it.
\<close>

theorem C8_absent_patient:
  assumes "pid \<notin> fst ` set (patients_db s)"
  shows "update_patient pid p s = (Inl (KeyError (PInt pid)), s) \<and>
         delete_patient pid s = (Inl (KeyError (PInt pid)), s)"
proof -
  have "map_of (patients_db s) pid = None" using assms by (simp add: map_of_None_keys)
  then show ?thesis by (simp add: update_patient_def delete_patient_def)
qed

theorem C8_absent_patient_witness:
  "2 \<notin> fst ` set (patients_db all_busy) \<and>
   update_patient 2 pat_dana all_busy = (Inl (KeyError (PInt 2)), all_busy) \<and>
   delete_patient 2 all_busy = (Inl (KeyError (PInt 2)), all_busy)"
proof -
  have a: "2 \<notin> fst ` set (patients_db all_busy)" by (simp add: all_busy_def)
  show ?thesis using a C8_absent_patient [OF a, of pat_dana] by simp
qed

text \<open>
  Neither handler raises an HTTPException, so neither failure is the NotFound (404 with
  a message) of the claim.
\<close>

theorem C8_not_found_counterexample:
  "\<not> not_found (fst (update_patient 1 pat_carl empty_state)) \<and>
   \<not> not_found (fst (delete_patient 1 empty_state)) \<and>
   fst (update_patient 1 pat_carl empty_state) = Inl (KeyError (PInt 1)) \<and>
   fst (delete_patient 1 empty_state) = Inl (KeyError (PInt 1))"
  by (simp add: update_patient_def delete_patient_def empty_state_def)

subsection \<open>Identifiers\<close>

text \<open>
  As long as nothing was deleted the keys of a store are \<open>1, \<dots>, n\<close> in this order, and the
  next create appends \<open>n + 1\<close>.
\<close>

lemma create_patient_keys:
  assumes "map fst (patients_db s) = map int [1..<Suc n]"
  shows "map fst (patients_db (snd (create_patient p s))) = map int [1..<Suc (Suc n)]"
proof -
  have len: "length (patients_db s) = n"
    using arg_cong [OF assms, of length] by simp
  have "int n + 1 \<notin> set (map fst (patients_db s))"
    unfolding assms by auto
  then have "int n + 1 \<notin> fst ` set (patients_db s)" by simp
  from keys_setitem_new [OF this]
  have "map fst (patients_db (snd (create_patient p s))) = map fst (patients_db s) @ [int n + 1]"
    by (simp add: create_patient_def len Let_def)
  also have "\<dots> = map int ([1..<Suc n] @ [Suc n])"
    unfolding assms by simp
  also have "[1..<Suc n] @ [Suc n] = [1..<Suc (Suc n)]"
    by (rule upt_Suc_append [symmetric]) simp
  finally show ?thesis .
qed

lemma create_doctor_keys:
  assumes "map fst (doctors_db s) = map int [1..<Suc n]"
  shows "map fst (doctors_db (snd (create_doctor d s))) = map int [1..<Suc (Suc n)]"
proof -
  have len: "length (doctors_db s) = n"
    using arg_cong [OF assms, of length] by simp
  have "int n + 1 \<notin> set (map fst (doctors_db s))"
    unfolding assms by auto
  then have "int n + 1 \<notin> fst ` set (doctors_db s)" by simp
  from keys_setitem_new [OF this]
  have "map fst (doctors_db (snd (create_doctor d s))) = map fst (doctors_db s) @ [int n + 1]"
    by (simp add: create_doctor_def len Let_def)
  also have "\<dots> = map int ([1..<Suc n] @ [Suc n])"
    unfolding assms by simp
  also have "[1..<Suc n] @ [Suc n] = [1..<Suc (Suc n)]"
    by (rule upt_Suc_append [symmetric]) simp
  finally show ?thesis .
qed

lemma run_create_patients_keys:
  "map fst (patients_db s) = map int [1..<Suc n] \<Longrightarrow>
   map fst (patients_db (run (map CreatePatient ps) s)) = map int [1..<Suc (n + length ps)]"
proof (induction ps arbitrary: s n)
  case Nil
  then show ?case by simp
next
  case (Cons p ps)
  from Cons.IH [OF create_patient_keys [OF Cons.prems, of p]]
  show ?case by simp
qed

lemma run_create_doctors_keys:
  "map fst (doctors_db s) = map int [1..<Suc n] \<Longrightarrow>
   map fst (doctors_db (run (map CreateDoctor ds) s)) = map int [1..<Suc (n + length ds)]"
proof (induction ds arbitrary: s n)
  case Nil
  then show ?case by simp
next
  case (Cons d ds)
  from Cons.IH [OF create_doctor_keys [OF Cons.prems, of d]]
  show ?case by simp
qed

text \<open>
  Claim C7, as the code has it. In every state (so after every sequence of creates and
  deletes) \<^verbatim>\<open>create_patient\<close> returns the id \<^verbatim>\<open>len(patients_db) + 1\<close>, a positive integer, and
  stores the patient under it, and \<^verbatim>\<open>create_doctor\<close> does the same on the doctor store; in
  a run of creates alone from the empty state the ids are \<open>1, \<dots>, n\<close> in the order of
  creation. Nothing is said of ids after a delete.
\<close>

theorem C7_id_is_size_plus_one:
  "fst (create_patient p s) =
     Inr [(''message'', PStr ''Patient created successfully''),
          (''patient_id'', PInt (int (length (patients_db s)) + 1))] \<and>
   map_of (patients_db (snd (create_patient p s))) (int (length (patients_db s)) + 1) = Some p \<and>
   fst (create_doctor d s) =
     Inr [(''message'', PStr ''Doctor created successfully''),
          (''doctor_id'', PInt (int (length (doctors_db s)) + 1))] \<and>
   map_of (doctors_db (snd (create_doctor d s))) (int (length (doctors_db s)) + 1) = Some d \<and>
   0 < int (length (patients_db s)) + 1 \<and> 0 < int (length (doctors_db s)) + 1 \<and>
   map fst (patients_db (run (map CreatePatient ps) empty_state)) = map int [1..<Suc (length ps)] \<and>
   map fst (doctors_db (run (map CreateDoctor ds) empty_state)) = map int [1..<Suc (length ds)]"
proof -
  have a: "map fst (patients_db empty_state) = map int [1..<Suc 0]"
    and b: "map fst (doctors_db empty_state) = map int [1..<Suc 0]"
    by (simp_all add: empty_state_def)
  show ?thesis
    using run_create_patients_keys [OF a, of ps] run_create_doctors_keys [OF b, of ds]
    by (simp add: create_patient_def create_doctor_def map_of_setitem Let_def)
qed

text \<open>Two patients get the ids 1 and 2, and the third create returns 3.\<close>

theorem C7_id_is_size_plus_one_witness:
  "patients_db (run (map CreatePatient [pat_carl, pat_dana]) empty_state)
     = [(1, pat_carl), (2, pat_dana)] \<and>
   fst (create_patient pat_carl (run (map CreatePatient [pat_carl, pat_dana]) empty_state)) =
     Inr [(''message'', PStr ''Patient created successfully''), (''patient_id'', PInt 3)]"
proof -
  have e: "patients_db (run (map CreatePatient [pat_carl, pat_dana]) empty_state)
     = [(1, pat_carl), (2, pat_dana)]"
    by (simp add: create_patient_def empty_state_def)
  show ?thesis
    using e C7_id_is_size_plus_one [of pat_carl
        "run (map CreatePatient [pat_carl, pat_dana]) empty_state" dr_ada "[]" "[]"]
    by simp
qed

text \<open>
  An id is assigned again after its record was deleted: the patient created first gets
  id 1, the delete of 1 succeeds, and the next create returns 1 once more. The doctor
  store does the same.
\<close>

theorem C7_id_reused_counterexample:
  "fst (create_patient pat_carl empty_state) =
     Inr [(''message'', PStr ''Patient created successfully''), (''patient_id'', PInt 1)] \<and>
   fst (delete_patient 1 (run [CreatePatient pat_carl] empty_state)) =
     Inr (message ''Patient deleted successfully'') \<and>
   fst (create_patient pat_dana (run [CreatePatient pat_carl, DeletePatient 1] empty_state)) =
     Inr [(''message'', PStr ''Patient created successfully''), (''patient_id'', PInt 1)] \<and>
   fst (create_doctor dr_bob (run [CreateDoctor dr_ada, DeleteDoctor 1] empty_state)) =
     Inr [(''message'', PStr ''Doctor created successfully''), (''doctor_id'', PInt 1)]"
  by (simp add: create_patient_def delete_patient_def create_doctor_def delete_doctor_def
      delitem_def empty_state_def)

section \<open>The lookup by \<^verbatim>\<open>"id"\<close>\<close>

text \<open>
  Claim C2, on the state after one doctor was created and one appointment booked. The
  only active appointment has the keys \<^verbatim>\<open>patient_id\<close>, \<^verbatim>\<open>doctor_id\<close> and \<^verbatim>\<open>date\<close>, and
  \<^verbatim>\<open>complete_appointment\<close> with any id leaves with \<^verbatim>\<open>KeyError('id')\<close>, raised by the lookup:
  neither the 404 of the claim nor a success, and the state is the one before the call.
\<close>

theorem C2_complete_raises_KeyError:
  "appointments_db (run [CreateDoctor dr_ada, CreateAppointment 7 100] empty_state) =
     [[(''patient_id'', PInt 7), (''doctor_id'', PInt 1), (''date'', PDate 100)]] \<and>
   complete_appointment i (run [CreateDoctor dr_ada, CreateAppointment 7 100] empty_state) =
     (Inl (KeyError (PStr ''id'')),
      run [CreateDoctor dr_ada, CreateAppointment 7 100] empty_state) \<and>
   \<not> not_found
       (fst (complete_appointment i
          (run [CreateDoctor dr_ada, CreateAppointment 7 100] empty_state)))"
  by (simp add: empty_state_def create_doctor_def create_appointment_def
      complete_appointment_def dr_ada_def truthy_def Appointment_dict_def)

text \<open>
  An appointment without the key \<^verbatim>\<open>"id"\<close> stops the generator of the lookup at once. No
  handler writes to an appointment after it was built, so the appointments of a run
  keep the keys that \<^verbatim>\<open>appointment.dict()\<close> gave them.
\<close>

lemma no_id_of_fields: "map fst a = Appointment_fields \<Longrightarrow> map_of a ''id'' = None"
proof -
  assume f: "map fst a = Appointment_fields"
  have "''id'' \<notin> set (map fst a)" unfolding f by (simp add: Appointment_fields_def)
  then show ?thesis by (simp add: map_of_eq_None_iff)
qed

lemma next_app_no_id:
  "list_all (\<lambda>a. map_of a ''id'' = None) apps \<Longrightarrow>
   next_app apps i = (if apps = [] then Inr None else Inl (KeyError (PStr ''id'')))"
  by (cases apps) simp_all

lemma complete_appointment_no_id:
  assumes "list_all (\<lambda>a. map_of a ''id'' = None) (appointments_db s)"
  shows "complete_appointment i s =
           (if appointments_db s = [] then (Inl (HTTPException 404 ''Appointment not found''), s)
            else (Inl (KeyError (PStr ''id'')), s))"
  by (simp add: complete_appointment_def next_app_no_id [OF assms])

lemma cancel_appointment_no_id:
  assumes "list_all (\<lambda>a. map_of a ''id'' = None) (appointments_db s)"
  shows "cancel_appointment i s =
           (if appointments_db s = [] then (Inl (HTTPException 404 ''Appointment not found''), s)
            else (Inl (KeyError (PStr ''id'')), s))"
  by (simp add: cancel_appointment_def next_app_no_id [OF assms])

lemma plain_no_id:
  "plain_appointments s \<Longrightarrow> list_all (\<lambda>a. map_of a ''id'' = None) (appointments_db s)"
  by (simp add: plain_appointments_def list_all_iff no_id_of_fields)

lemma fields_Appointment_dict: "map fst (Appointment_dict a) = Appointment_fields"
  by (simp add: Appointment_dict_def Appointment_fields_def)

lemma create_appointment_appends:
  "create_appointment pid now s = (Inr r, s') \<Longrightarrow>
   \<exists>did. appointments_db s' =
     appointments_db s @ [Appointment_dict \<lparr>patient_id = pid, doctor_id = did, date = now\<rparr>]"
  by (auto simp: create_appointment_def Let_def split: list.splits option.splits)

lemma create_appointment_apps:
  "appointments_db (snd (create_appointment pid now s)) = appointments_db s \<or>
   (\<exists>did. appointments_db (snd (create_appointment pid now s)) =
     appointments_db s @ [Appointment_dict \<lparr>patient_id = pid, doctor_id = did, date = now\<rparr>])"
  by (auto simp: create_appointment_def Let_def split: list.splits option.splits)

lemma create_appointment_plain:
  assumes "plain_appointments s"
  shows "plain_appointments (snd (create_appointment pid now s))"
  using create_appointment_apps [of pid now s] assms
  by (auto simp: plain_appointments_def fields_Appointment_dict)

lemma handle_plain:
  assumes "plain_appointments s"
  shows "plain_appointments (snd (handle r s))"
proof (cases r)
  case (CreateAppointment p t)
  then show ?thesis using create_appointment_plain [OF assms] by simp
next
  case (CompleteAppointment i)
  then show ?thesis
    using assms by (simp add: complete_appointment_no_id [OF plain_no_id [OF assms]])
next
  case (CancelAppointment i)
  then show ?thesis
    using assms by (simp add: cancel_appointment_no_id [OF plain_no_id [OF assms]])
next
  case (CreatePatient p)
  then show ?thesis using assms by (simp add: create_patient_def plain_appointments_def Let_def)
next
  case (UpdatePatient i p)
  then show ?thesis
    using assms by (simp add: update_patient_def plain_appointments_def split: option.splits)
next
  case (DeletePatient i)
  then show ?thesis
    using assms by (simp add: delete_patient_def plain_appointments_def split: option.splits)
next
  case (CreateDoctor d)
  then show ?thesis using assms by (simp add: create_doctor_def plain_appointments_def Let_def)
next
  case (UpdateDoctor i d)
  then show ?thesis
    using assms by (simp add: update_doctor_def plain_appointments_def split: option.splits)
next
  case (DeleteDoctor i)
  then show ?thesis
    using assms by (simp add: delete_doctor_def plain_appointments_def split: option.splits)
next
  case (SetDoctorAvailability i b)
  then show ?thesis
    using assms
    by (simp add: set_doctor_availability_def plain_appointments_def split: option.splits)
qed

lemma run_plain: "plain_appointments s \<Longrightarrow> plain_appointments (run rs s)"
  by (induction rs arbitrary: s) (simp_all add: handle_plain)

lemma plain_empty_state: "plain_appointments empty_state"
  by (simp add: plain_appointments_def empty_state_def)

text \<open>
  Claim C9. The record that a successful \<^verbatim>\<open>create_appointment\<close> appends to the active
  collection is a dict of exactly \<^verbatim>\<open>patient_id\<close>, \<^verbatim>\<open>doctor_id\<close> and \<^verbatim>\<open>date\<close>; after every
  run of requests from the empty state every active appointment has exactly these three
  keys and no key \<^verbatim>\<open>"id"\<close>; and yet \<^verbatim>\<open>complete_appointment\<close> and \<^verbatim>\<open>cancel_appointment\<close> read
  that key: whenever the collection is not empty, both leave with \<^verbatim>\<open>KeyError('id')\<close>.
\<close>

theorem C9_appointment_has_no_id:
  "(\<forall>r s'. create_appointment pid now s = (Inr r, s') \<longrightarrow>
      (\<exists>did. appointments_db s' = appointments_db s @
                [[(''patient_id'', PInt pid), (''doctor_id'', PInt did), (''date'', PDate now)]])) \<and>
   (\<forall>a \<in> set (appointments_db (run rs empty_state)).
      map fst a = [''patient_id'', ''doctor_id'', ''date''] \<and> map_of a ''id'' = None) \<and>
   (appointments_db (run rs empty_state) \<noteq> [] \<longrightarrow>
      fst (complete_appointment i (run rs empty_state)) = Inl (KeyError (PStr ''id'')) \<and>
      fst (cancel_appointment i (run rs empty_state)) = Inl (KeyError (PStr ''id'')))"
proof (intro conjI allI impI ballI)
  fix r s' assume "create_appointment pid now s = (Inr r, s')"
  from create_appointment_appends [OF this]
  show "\<exists>did. appointments_db s' = appointments_db s @
          [[(''patient_id'', PInt pid), (''doctor_id'', PInt did), (''date'', PDate now)]]"
    by (simp add: Appointment_dict_def)
next
  have p: "plain_appointments (run rs empty_state)"
    by (rule run_plain [OF plain_empty_state])
  note n = plain_no_id [OF p]
  {
    fix a assume a: "a \<in> set (appointments_db (run rs empty_state))"
    with p show "map fst a = [''patient_id'', ''doctor_id'', ''date'']"
      by (simp add: plain_appointments_def list_all_iff Appointment_fields_def)
    from a n show "map_of a ''id'' = None" by (simp add: list_all_iff)
  }
  assume ne: "appointments_db (run rs empty_state) \<noteq> []"
  show "fst (complete_appointment i (run rs empty_state)) = Inl (KeyError (PStr ''id''))"
    by (simp add: complete_appointment_no_id [OF n] ne)
  show "fst (cancel_appointment i (run rs empty_state)) = Inl (KeyError (PStr ''id''))"
    by (simp add: cancel_appointment_no_id [OF n] ne)
qed

text \<open>A run that books two appointments with a failed completion in between.\<close>

theorem C9_appointment_has_no_id_witness:
  "appointments_db (run [CreateDoctor dr_ada, CreatePatient pat_carl, CreateAppointment 1 100,
       CompleteAppointment 1, UpdateDoctor 1 dr_bob, CreateAppointment 1 101] empty_state) =
     [[(''patient_id'', PInt 1), (''doctor_id'', PInt 1), (''date'', PDate 100)],
      [(''patient_id'', PInt 1), (''doctor_id'', PInt 1), (''date'', PDate 101)]] \<and>
   fst (complete_appointment 1
     (run [CreateDoctor dr_ada, CreatePatient pat_carl, CreateAppointment 1 100,
       CompleteAppointment 1, UpdateDoctor 1 dr_bob, CreateAppointment 1 101] empty_state))
     = Inl (KeyError (PStr ''id''))"
proof -
  have e: "appointments_db (run [CreateDoctor dr_ada, CreatePatient pat_carl, CreateAppointment 1 100,
       CompleteAppointment 1, UpdateDoctor 1 dr_bob, CreateAppointment 1 101] empty_state) =
     [[(''patient_id'', PInt 1), (''doctor_id'', PInt 1), (''date'', PDate 100)],
      [(''patient_id'', PInt 1), (''doctor_id'', PInt 1), (''date'', PDate 101)]]"
    by (simp add: empty_state_def create_doctor_def create_patient_def create_appointment_def
        complete_appointment_def update_doctor_def dr_ada_def dr_bob_def truthy_def
        Appointment_dict_def)
  show ?thesis
    using e C9_appointment_has_no_id [of 1 100 empty_state
       "[CreateDoctor dr_ada, CreatePatient pat_carl, CreateAppointment 1 100,
       CompleteAppointment 1, UpdateDoctor 1 dr_bob, CreateAppointment 1 101]" 1]
    by simp
qed

section \<open>Availability and active appointments\<close>

text \<open>The doctors flagged \<^verbatim>\<open>False\<close>, after the flag of one doctor was set to \<^verbatim>\<open>False\<close>.\<close>

lemma unavailable_Nil: "unavailable [] = []"
  by (simp add: unavailable_def)

lemma unavailable_Cons:
  "unavailable ((k, d) # ds) =
     (if is_available d = Some False then k # unavailable ds else unavailable ds)"
  by (simp add: unavailable_def)

lemma unavailable_setitem_False:
  "k \<in> fst ` set ds \<Longrightarrow> is_available v = Some False \<Longrightarrow>
   set (unavailable (setitem ds k v)) = insert k (set (unavailable ds))"
  by (induction ds k v rule: setitem.induct) (auto simp: unavailable_Cons)

lemma mem_unavailable:
  assumes "distinct (map fst ds)" and "x \<in> set ds"
  shows "fst x \<in> set (unavailable ds) \<longleftrightarrow> is_available (snd x) = Some False"
proof
  assume "fst x \<in> set (unavailable ds)"
  then obtain y where y: "y \<in> set ds" "fst y = fst x" "is_available (snd y) = Some False"
    by (auto simp: unavailable_def)
  from assms y(1,2) have "y = x"
    by (metis eq_key_imp_eq_value prod.collapse)
  with y(3) show "is_available (snd x) = Some False" by simp
next
  assume "is_available (snd x) = Some False"
  with assms(2) show "fst x \<in> set (unavailable ds)"
    by (force simp: unavailable_def)
qed

lemma unavailable_keys: "set (unavailable ds) \<subseteq> fst ` set ds"
  by (auto simp: unavailable_def)

lemma distinct_unavailable: "distinct (map fst ds) \<Longrightarrow> distinct (unavailable ds)"
  by (simp add: unavailable_def distinct_map_filter)

text \<open>
  A booking names a doctor whose flag was \<^verbatim>\<open>True\<close>, hence one that no active appointment
  names, and flags it \<^verbatim>\<open>False\<close>; a completion or cancellation stops at the lookup and
  leaves the state as it was.
\<close>

lemma create_appointment_inv:
  assumes "lifecycle_inv s"
  shows "lifecycle_inv (snd (create_appointment pid now s))"
proof (cases "\<exists>x \<in> set (doctors_db s). is_available (snd x) = Some True")
  case False
  then have "\<forall>x \<in> set (doctors_db s). is_available (snd x) \<noteq> Some True" by simp
  from create_appointment_none [OF this] assms show ?thesis by simp
next
  case True
  from split_list_first_prop [OF True] obtain pre x post where
    h: "doctors_db s = pre @ x # post" "is_available (snd x) = Some True"
       "\<forall>y \<in> set pre. \<not> is_available (snd y) = Some True"
    by blast
  have h1: "doctors_db s = pre @ (fst x, snd x) # post" using h(1) by simp
  note sel = create_appointment_selects [OF h1 h(3) h(2), of pid now]
  let ?s' = "snd (create_appointment pid now s)"
  let ?k = "fst x"
  from sel(4) obtain doc where
    doc: "doctors_db ?s' = setitem (doctors_db s) ?k (doc\<lparr>is_available := Some False\<rparr>)"
    by blast
  have wf: "distinct (map fst (doctors_db s))"
    and noid: "list_all (\<lambda>a. map_of a ''id'' = None) (appointments_db s)"
    and dist: "distinct (doctor_refs (appointments_db s))"
    and refs: "set (doctor_refs (appointments_db s))
                 = set (map (\<lambda>k. Some (PInt k)) (unavailable (doctors_db s)))"
    using assms by (simp_all add: lifecycle_inv_def well_formed_dict_def)
  have xin: "x \<in> set (doctors_db s)" using h(1) by simp
  then have kin: "?k \<in> fst ` set (doctors_db s)" by (rule imageI)
  have knot: "?k \<notin> set (unavailable (doctors_db s))"
    using mem_unavailable [OF wf xin] h(2) by simp
  have refs': "doctor_refs (appointments_db ?s')
                 = doctor_refs (appointments_db s) @ [Some (PInt ?k)]"
    by (simp add: sel(2) doctor_refs_def Appointment_dict_def)
  have new: "Some (PInt ?k) \<notin> set (doctor_refs (appointments_db s))"
    unfolding refs using knot by auto
  have un': "set (unavailable (doctors_db ?s')) = insert ?k (set (unavailable (doctors_db s)))"
    unfolding doc by (rule unavailable_setitem_False [OF kin]) simp
  have 1: "well_formed_dict (doctors_db ?s')"
    unfolding doc well_formed_dict_def using wf by (simp add: keys_setitem_mem [OF kin])
  have 2: "list_all (\<lambda>a. map_of a ''id'' = None) (appointments_db ?s')"
    using noid by (simp add: sel(2) Appointment_dict_def)
  have 3: "distinct (doctor_refs (appointments_db ?s'))"
    unfolding refs' using dist new by simp
  have 4: "set (doctor_refs (appointments_db ?s'))
             = set (map (\<lambda>k. Some (PInt k)) (unavailable (doctors_db ?s')))"
    unfolding refs' using refs un' by simp
  from 1 2 3 4 show ?thesis unfolding lifecycle_inv_def by blast
qed

lemma handle_lifecycle_inv:
  assumes "lifecycle r" and "lifecycle_inv s"
  shows "lifecycle_inv (snd (handle r s))"
proof -
  have noid: "list_all (\<lambda>a. map_of a ''id'' = None) (appointments_db s)"
    using assms(2) by (simp add: lifecycle_inv_def)
  show ?thesis
  proof (cases r)
    case (CreateAppointment p t)
    then show ?thesis using create_appointment_inv [OF assms(2)] by simp
  next
    case (CompleteAppointment i)
    then show ?thesis using assms(2) by (simp add: complete_appointment_no_id [OF noid])
  next
    case (CancelAppointment i)
    then show ?thesis using assms(2) by (simp add: cancel_appointment_no_id [OF noid])
  qed (use assms(1) in simp_all)
qed

lemma run_lifecycle_inv:
  "list_all lifecycle rs \<Longrightarrow> lifecycle_inv s \<Longrightarrow> lifecycle_inv (run rs s)"
  by (induction rs arbitrary: s) (simp_all add: handle_lifecycle_inv)

lemma fresh_lifecycle_inv: "fresh s \<Longrightarrow> lifecycle_inv s"
  by (simp add: fresh_def lifecycle_inv_def doctor_refs_def)

lemma fresh_empty_state: "fresh empty_state"
  by (simp add: fresh_def empty_state_def well_formed_dict_def unavailable_def)

text \<open>The invariant of the handlers gives the invariant of the specification.\<close>

lemma lifecycle_inv_bidirectional:
  assumes "lifecycle_inv s"
  shows "bidirectional s"
proof -
  have wf: "distinct (map fst (doctors_db s))"
    and refs: "set (doctor_refs (appointments_db s))
                 = (\<lambda>k. Some (PInt k)) ` set (unavailable (doctors_db s))"
    using assms by (simp_all add: lifecycle_inv_def well_formed_dict_def)
  have a: "(Some (PInt (fst x)) \<in> set (doctor_refs (appointments_db s)))
             = (is_available (snd x) = Some False)"
    if "x \<in> set (doctors_db s)" for x
    unfolding refs using mem_unavailable [OF wf that] by auto
  have b: "r \<in> set (map (\<lambda>x. Some (PInt (fst x))) (doctors_db s))"
    if "r \<in> set (doctor_refs (appointments_db s))" for r
    using that unavailable_keys [of "doctors_db s"] unfolding refs by auto
  from a b show ?thesis by (simp add: bidirectional_def list_all_iff)
qed

lemma lifecycle_inv_counts:
  assumes "lifecycle_inv s"
  shows "counts_agree s"
proof -
  have wf: "distinct (map fst (doctors_db s))"
    and dist: "distinct (doctor_refs (appointments_db s))"
    and refs: "set (doctor_refs (appointments_db s))
                 = (\<lambda>k. Some (PInt k)) ` set (unavailable (doctors_db s))"
    using assms by (simp_all add: lifecycle_inv_def well_formed_dict_def)
  have "length (appointments_db s) = length (doctor_refs (appointments_db s))"
    by (simp add: doctor_refs_def)
  also have "\<dots> = card (set (doctor_refs (appointments_db s)))"
    using dist by (simp add: distinct_card)
  also have "\<dots> = card (set (unavailable (doctors_db s)))"
    unfolding refs by (rule card_image) (simp add: inj_on_def)
  also have "\<dots> = length (unavailable (doctors_db s))"
    using distinct_unavailable [OF wf] by (simp add: distinct_card)
  finally show ?thesis by (simp add: counts_agree_def)
qed

text \<open>
  Claim C1. From a fresh state, and so from the empty state of the process start, after
  each request of every sequence of \<^verbatim>\<open>create_appointment\<close>, \<^verbatim>\<open>complete_appointment\<close> and
  \<^verbatim>\<open>cancel_appointment\<close> requests (that is, after every prefix of the sequence): a doctor is
  named by an active appointment if and only if its flag is \<^verbatim>\<open>False\<close>, every active
  appointment names a doctor of the store, and the number of doctors flagged \<^verbatim>\<open>False\<close>
  is the number of active appointments.
\<close>

theorem C1_availability_invariant:
  assumes "list_all lifecycle rs" and "fresh s0"
  shows "bidirectional (run (take n rs) s0) \<and> counts_agree (run (take n rs) s0)"
proof -
  have "list_all lifecycle (take n rs)"
    using assms(1) by (auto simp: list_all_iff dest: in_set_takeD)
  from run_lifecycle_inv [OF this fresh_lifecycle_inv [OF assms(2)]]
  show ?thesis by (simp add: lifecycle_inv_bidirectional lifecycle_inv_counts)
qed

text \<open>
  Three bookings on three doctors, one of them never assignable: two appointments, for
  the doctors 2 and 3, and these two are the doctors flagged \<^verbatim>\<open>False\<close>.
\<close>

lemma run_bookings_three_doctors:
  "run bookings three_doctors =
     \<lparr>patients_db = [],
      doctors_db = [(1, dr_eve), (2, dr_ada\<lparr>is_available := Some False\<rparr>),
                    (3, dr_bob\<lparr>is_available := Some False\<rparr>)],
      appointments_db =
        [[(''patient_id'', PInt 7), (''doctor_id'', PInt 2), (''date'', PDate 100)],
         [(''patient_id'', PInt 8), (''doctor_id'', PInt 3), (''date'', PDate 101)]]\<rparr>"
  by (simp add: bookings_def three_doctors_def create_appointment_def complete_appointment_def
      cancel_appointment_def truthy_def dr_eve_def dr_ada_def dr_bob_def Appointment_dict_def)

theorem C1_availability_invariant_witness:
  "list_all lifecycle bookings \<and> fresh three_doctors \<and> fresh empty_state \<and>
   bidirectional (run bookings three_doctors) \<and> counts_agree (run bookings three_doctors) \<and>
   unavailable (doctors_db (run bookings three_doctors)) = [2, 3] \<and>
   doctor_refs (appointments_db (run bookings three_doctors)) = [Some (PInt 2), Some (PInt 3)] \<and>
   bidirectional (run bookings empty_state) \<and> counts_agree (run bookings empty_state)"
proof -
  have l: "list_all lifecycle bookings" by (simp add: bookings_def)
  have f: "fresh three_doctors"
    by (simp add: fresh_def three_doctors_def well_formed_dict_def unavailable_def
        dr_eve_def dr_ada_def dr_bob_def)
  have t: "take 5 bookings = bookings" by (simp add: bookings_def)
  have u: "unavailable (doctors_db (run bookings three_doctors)) = [2, 3]"
    by (simp add: run_bookings_three_doctors unavailable_def dr_eve_def dr_ada_def dr_bob_def)
  have r: "doctor_refs (appointments_db (run bookings three_doctors))
             = [Some (PInt 2), Some (PInt 3)]"
    by (simp add: run_bookings_three_doctors doctor_refs_def)
  show ?thesis
    using l f fresh_empty_state u r
      C1_availability_invariant [OF l f, of 5]
      C1_availability_invariant [OF l fresh_empty_state, of 5]
    by (simp add: t)
qed

end
